theory Spec2Isabelle
  imports Main
begin

section \<open>JavaScript values, errors and effects\<close>

text \<open>
  The handlers are JavaScript. A value read from a request body or from a vendor object is
  one of the JSON shapes or \<open>undefined\<close>. Numbers are modelled as integers (the amounts and
  timestamps the handlers read are integers); \<open>NaN\<close> appears only as the missing time value
  of an invalid \<open>Date\<close>, see below.
\<close>

datatype jsval =
    JUndefined
  | JNull
  | JBool bool
  | JNum int
  | JStr string
  | JArr "jsval list"
  | JObj "(string \<times> jsval) list"

text \<open>An exception object: its constructor name, its \<open>type\<close> property (set by the vendor
  SDK on its own errors, \<open>undefined\<close> on a built-in error) and its message.\<close>

datatype js_error = JsError (err_name: string) (err_type: jsval) (err_message: string)

definition TypeError :: "string \<Rightarrow> js_error" where
  "TypeError msg = JsError ''TypeError'' JUndefined msg"

definition RangeError :: "string \<Rightarrow> js_error" where
  "RangeError msg = JsError ''RangeError'' JUndefined msg"

text \<open>
  What a handler does besides answering. \<open>ConsoleLog\<close> and \<open>ConsoleError\<close> are the
  \<open>console.log\<close> and \<open>console.error\<close> calls (the message without its leading pictograph,
  and the further arguments as values); \<open>StripeCall\<close> is a request to the payment processor
  through the SDK client. \<open>SinkWrite\<close> and \<open>StoreLookup\<close> stand for a write to the
  persistence sink and a read of a processed-event store: the source has only
  \<^verbatim>\<open>// TODO\<close> comments where such calls would be, so no function below emits them, and
  they are in the datatype so that their absence from a trace can be stated.
\<close>

datatype effect =
    ConsoleLog string "jsval list"
  | ConsoleError string js_error
  | StripeCall string jsval
  | SinkWrite string jsval
  | StoreLookup string

fun is_sink_write :: "effect \<Rightarrow> bool" where
  "is_sink_write (SinkWrite _ _) = True"
| "is_sink_write _ = False"


fun is_stripe_call :: "effect \<Rightarrow> bool" where
  "is_stripe_call (StripeCall _ _) = True"
| "is_stripe_call _ = False"

text \<open>Truthiness (\<open>!v\<close> is its negation) and the \<open>||\<close> operator.\<close>

fun truthy :: "jsval \<Rightarrow> bool" where
  "truthy JUndefined = False"
| "truthy JNull = False"
| "truthy (JBool b) = b"
| "truthy (JNum n) = (n \<noteq> 0)"
| "truthy (JStr s) = (s \<noteq> [])"
| "truthy (JArr _) = True"
| "truthy (JObj _) = True"

definition js_or :: "jsval \<Rightarrow> jsval \<Rightarrow> jsval" where
  "js_or a b = (if truthy a then a else b)"

text \<open>Reading a named property of an object (an association list, keys without
  repetition): \<open>undefined\<close> when the object has no such property.\<close>

definition field :: "(string \<times> jsval) list \<Rightarrow> string \<Rightarrow> jsval" where
  "field obj k = (case map_of obj k of None \<Rightarrow> JUndefined | Some v \<Rightarrow> v)"

text \<open>Optional chaining \<open>v?.k\<close>: \<open>undefined\<close> for \<open>null\<close> and \<open>undefined\<close>, the property
  otherwise. The names read below are never own properties of a string, number, boolean or
  array, which therefore give \<open>undefined\<close> too.\<close>

fun opt_chain :: "jsval \<Rightarrow> string \<Rightarrow> jsval" where
  "opt_chain (JObj obj) k = field obj k"
| "opt_chain _ k = JUndefined"


fun get_prop :: "jsval \<Rightarrow> string \<Rightarrow> js_error + jsval" where
  "get_prop JUndefined k = Inl (TypeError ''Cannot read properties of undefined'')"
| "get_prop JNull k = Inl (TypeError ''Cannot read properties of null'')"
| "get_prop v k = Inr (opt_chain v k)"

text \<open>
  Built-ins of the JavaScript runtime whose exact result no handler branches on are taken
  as parameters: \<open>parseInt\<close>, the conversion of a string or an array to a number (\<open>None\<close> is
  \<open>NaN\<close>), the conversion of a number or an array to a string,
  \<open>String.prototype.toLowerCase\<close>, the rendering of a valid time value by \<open>toISOString\<close>,
  and the offset of local time from UTC in milliseconds.
\<close>

record js_runtime =
  rt_parseInt :: "jsval \<Rightarrow> jsval"
  rt_StringToNumber :: "jsval \<Rightarrow> int option"
  rt_toString :: "jsval \<Rightarrow> string"
  rt_toLowerCase :: "string \<Rightarrow> string"
  rt_isoFormat :: "int \<Rightarrow> string"
  rt_tza :: int

text \<open>\<open>ToNumber\<close>, as the \<open>*\<close> operator applies it to its operand.\<close>

fun to_number :: "js_runtime \<Rightarrow> jsval \<Rightarrow> int option" where
  "to_number rt JUndefined = None"
| "to_number rt JNull = Some 0"
| "to_number rt (JBool b) = Some (if b then 1 else 0)"
| "to_number rt (JNum n) = Some n"
| "to_number rt (JObj _) = None"
| "to_number rt v = rt_StringToNumber rt v"

text \<open>\<open>ToString\<close>, as a template literal applies it to the value it embeds.\<close>

fun js_to_string :: "js_runtime \<Rightarrow> jsval \<Rightarrow> string" where
  "js_to_string rt (JStr s) = s"
| "js_to_string rt JUndefined = ''undefined''"
| "js_to_string rt JNull = ''null''"
| "js_to_string rt (JBool b) = (if b then ''true'' else ''false'')"
| "js_to_string rt (JObj _) = ''[object Object]''"
| "js_to_string rt v = rt_toString rt v"

section \<open>Dates\<close>

text \<open>
  A \<open>Date\<close> holds a time value: milliseconds since the epoch, or \<open>NaN\<close> (here \<open>None\<close>) for
  an invalid date. The day and calendar functions are those of the ECMAScript
  specification; local time is UTC shifted by the runtime's fixed offset.
\<close>

type_synonym timeval = "int option"

definition msPerDay :: int where
  "msPerDay = 86400000"

definition Day :: "int \<Rightarrow> int" where
  "Day t = t div msPerDay"

definition TimeWithinDay :: "int \<Rightarrow> int" where
  "TimeWithinDay t = t mod msPerDay"

definition DayFromYear :: "int \<Rightarrow> int" where
  "DayFromYear y =
     365 * (y - 1970) + (y - 1969) div 4 - (y - 1901) div 100 + (y - 1601) div 400"

definition DaysInYear :: "int \<Rightarrow> int" where
  "DaysInYear y =
     (if y mod 4 \<noteq> 0 then 365 else if y mod 100 \<noteq> 0 then 366
      else if y mod 400 \<noteq> 0 then 365 else 366)"

text \<open>The year of a day number: the largest \<open>y\<close> with \<open>DayFromYear y \<le> d\<close>, found from an
  estimate that is off by at most one.\<close>

definition YearFromDay :: "int \<Rightarrow> int" where
  "YearFromDay d =
     (let e = 1970 + (400 * d) div 146097
      in if DayFromYear (e + 1) \<le> d then e + 1
         else if DayFromYear e \<le> d then e
         else e - 1)"

definition YearFromTime :: "int \<Rightarrow> int" where
  "YearFromTime t = YearFromDay (Day t)"

definition InLeapYear :: "int \<Rightarrow> int" where
  "InLeapYear t = (if DaysInYear (YearFromTime t) = 366 then 1 else 0)"

definition DayWithinYear :: "int \<Rightarrow> int" where
  "DayWithinYear t = Day t - DayFromYear (YearFromTime t)"

text \<open>The number of days of a year before its month \<open>m\<close> (0 is January), \<open>leap\<close> being 1 in
  a leap year and 0 otherwise.\<close>

definition month_start :: "int \<Rightarrow> int \<Rightarrow> int" where
  "month_start m leap =
     (if m = 0 then 0 else if m = 1 then 31 else if m = 2 then 59 + leap
      else if m = 3 then 90 + leap else if m = 4 then 120 + leap
      else if m = 5 then 151 + leap else if m = 6 then 181 + leap
      else if m = 7 then 212 + leap else if m = 8 then 243 + leap
      else if m = 9 then 273 + leap else if m = 10 then 304 + leap
      else 334 + leap)"

definition MonthFromTime :: "int \<Rightarrow> int" where
  "MonthFromTime t =
     (let d = DayWithinYear t; leap = InLeapYear t
      in if d < 31 then 0 else if d < 59 + leap then 1 else if d < 90 + leap then 2
         else if d < 120 + leap then 3 else if d < 151 + leap then 4
         else if d < 181 + leap then 5 else if d < 212 + leap then 6
         else if d < 243 + leap then 7 else if d < 273 + leap then 8
         else if d < 304 + leap then 9 else if d < 334 + leap then 10
         else 11)"

definition DateFromTime :: "int \<Rightarrow> int" where
  "DateFromTime t = DayWithinYear t - month_start (MonthFromTime t) (InLeapYear t) + 1"

definition MakeDay :: "int \<Rightarrow> int \<Rightarrow> int \<Rightarrow> int" where
  "MakeDay year month date =
     (let ym = year + month div 12; mn = month mod 12
      in DayFromYear ym + month_start mn (if DaysInYear ym = 366 then 1 else 0) + date - 1)"

definition MakeDate :: "int \<Rightarrow> int \<Rightarrow> int" where
  "MakeDate day time = day * msPerDay + time"

definition TimeClip :: "int \<Rightarrow> timeval" where
  "TimeClip t = (if \<bar>t\<bar> > 8640000000000000 then None else Some t)"

definition LocalTime :: "js_runtime \<Rightarrow> int \<Rightarrow> int" where
  "LocalTime rt t = t + rt_tza rt"

definition UTC :: "js_runtime \<Rightarrow> int \<Rightarrow> int" where
  "UTC rt t = t - rt_tza rt"

text \<open>
  \<open>Date\<close> objects are mutable and passed by reference, so they live in a store: a
  reference is a number, \<open>next_ref\<close> is the first unused one.
\<close>

record date_heap =
  next_ref :: nat
  date_value :: "nat \<Rightarrow> timeval"

definition new_Date :: "date_heap \<Rightarrow> timeval \<Rightarrow> date_heap \<times> nat" where
  "new_Date h v =
     (h\<lparr>next_ref := Suc (next_ref h),
        date_value := (date_value h)(next_ref h := (case v of None \<Rightarrow> None | Some t \<Rightarrow> TimeClip t))\<rparr>,
      next_ref h)"

definition getTime :: "date_heap \<Rightarrow> nat \<Rightarrow> timeval" where
  "getTime h r = date_value h r"

definition getDate :: "js_runtime \<Rightarrow> date_heap \<Rightarrow> nat \<Rightarrow> int option" where
  "getDate rt h r =
     (case date_value h r of None \<Rightarrow> None | Some t \<Rightarrow> Some (DateFromTime (LocalTime rt t)))"

definition setDate :: "js_runtime \<Rightarrow> date_heap \<Rightarrow> nat \<Rightarrow> int option \<Rightarrow> date_heap" where
  "setDate rt h r date =
     (case date_value h r of
        None \<Rightarrow> h
      | Some t0 \<Rightarrow>
          (let t = LocalTime rt t0;
               u = (case date of
                      None \<Rightarrow> None
                    | Some dt \<Rightarrow>
                        TimeClip (UTC rt (MakeDate (MakeDay (YearFromTime t) (MonthFromTime t) dt)
                                                   (TimeWithinDay t))))
           in h\<lparr>date_value := (date_value h)(r := u)\<rparr>))"

definition toISOString :: "js_runtime \<Rightarrow> timeval \<Rightarrow> js_error + string" where
  "toISOString rt v =
     (case v of None \<Rightarrow> Inl (RangeError ''Invalid time value'')
      | Some t \<Rightarrow> Inr (rt_isoFormat rt t))"

text \<open>\<open>x + n\<close> on a number that may be \<open>NaN\<close>.\<close>

definition num_plus :: "int option \<Rightarrow> int \<Rightarrow> int option" where
  "num_plus x n = (case x of None \<Rightarrow> None | Some k \<Rightarrow> Some (k + n))"

section \<open>Payment intent endpoint: the end of a subscription\<close>

text \<open>
  \<^verbatim>\<open>
  function calculateEndDate(startDate, planType) {
    const endDate = new Date(startDate.getTime());
    switch (planType) {
      case 'weekly':    endDate.setDate(endDate.getDate() + 7);  console.log(...); break;
      case 'monthly':   endDate.setDate(endDate.getDate() + 30); console.log(...); break;
      case 'quarterly': endDate.setDate(endDate.getDate() + 90); console.log(...); break;
      default:          endDate.setDate(endDate.getDate() + 30); console.log(...);
    }
    return endDate;
  }
  \<close>
  The result is the store after the call, the reference returned and the console output.
\<close>

definition calculateEndDate ::
  "js_runtime \<Rightarrow> date_heap \<Rightarrow> nat \<Rightarrow> jsval \<Rightarrow> date_heap \<times> nat \<times> effect list" where
  "calculateEndDate rt h startDate planType =
     (let (h1, endDate) = new_Date h (getTime h startDate)
      in if planType = JStr ''weekly'' then
           (setDate rt h1 endDate (num_plus (getDate rt h1 endDate) 7), endDate,
            [ConsoleLog ''Weekly plan: +7 days'' []])
         else if planType = JStr ''monthly'' then
           (setDate rt h1 endDate (num_plus (getDate rt h1 endDate) 30), endDate,
            [ConsoleLog ''Monthly plan: +30 days'' []])
         else if planType = JStr ''quarterly'' then
           (setDate rt h1 endDate (num_plus (getDate rt h1 endDate) 90), endDate,
            [ConsoleLog ''Quarterly plan: +90 days'' []])
         else
           (setDate rt h1 endDate (num_plus (getDate rt h1 endDate) 30), endDate,
            [ConsoleLog ''Default plan: +30 days'' []]))"

text \<open>What the claim calls ``the start date plus \<open>n\<close> days'': the time value moved by \<open>n\<close>
  days of 24 hours, an invalid date staying invalid and a time value outside the range of
  \<open>Date\<close> becoming invalid.\<close>

definition date_plus_days :: "timeval \<Rightarrow> int \<Rightarrow> timeval" where
  "date_plus_days v n = (case v of None \<Rightarrow> None | Some t \<Rightarrow> TimeClip (t + n * msPerDay))"

text \<open>A reference that denotes a \<open>Date\<close> of the store: it has been allocated, and its time
  value, if any, is within the range every \<open>Date\<close> keeps.\<close>

definition is_Date :: "date_heap \<Rightarrow> nat \<Rightarrow> bool" where
  "is_Date h r =
     (r < next_ref h \<and>
      (case date_value h r of None \<Rightarrow> True | Some t \<Rightarrow> \<bar>t\<bar> \<le> 8640000000000000))"


section \<open>HTTP responses\<close>

datatype res_body = EndBody | SendText string | SendJson jsval

record response =
  status :: nat
  headers :: "(string \<times> string) list"
  body :: res_body

type_synonym js_object = "(string \<times> jsval) list"

section \<open>Payment intent endpoint: the handler\<close>

text \<open>
  The request as the platform hands it over: the method, the \<open>Origin\<close> header and
  \<open>req.body\<close>, which is whatever the platform parsed (any JSON value, or \<open>undefined\<close>
  when there is no body to parse).
\<close>

record payment_request =
  pr_method :: string
  pr_origin :: "string option"
  pr_body :: jsval

text \<open>
  The three SDK calls the handler makes. Each takes its argument object and either throws
  or returns a vendor object; \<open>customers.list\<close> returns the \<open>data\<close> array of its result.
\<close>

record stripe_api =
  customers_list :: "jsval \<Rightarrow> js_error + js_object list"
  customers_create :: "jsval \<Rightarrow> js_error + js_object"
  paymentIntents_create :: "jsval \<Rightarrow> js_error + js_object"

definition allowedOrigins :: "string list" where
  "allowedOrigins = [''https://www.gammapace.com'', ''https://gurukullam.github.io'', ''null'']"

definition cors_headers :: "string option \<Rightarrow> (string \<times> string) list" where
  "cors_headers origin =
     (case origin of
        Some origin_value \<Rightarrow>
          (if origin_value \<in> set allowedOrigins
           then [(''Access-Control-Allow-Origin'', origin_value)]
           else if origin_value = [] then [(''Access-Control-Allow-Origin'', ''*'')]
           else [])
      | None \<Rightarrow> [(''Access-Control-Allow-Origin'', ''*'')])
     @ [(''Access-Control-Allow-Methods'', ''POST, OPTIONS''),
        (''Access-Control-Allow-Headers'', ''Content-Type, Authorization'')]"

text \<open>The destructuring \<^verbatim>\<open>const { amount, ... } = req.body\<close>: it throws on \<open>null\<close> and
  \<open>undefined\<close>, and otherwise gives a reader of the named properties.\<close>

fun destructure :: "jsval \<Rightarrow> js_error + (string \<Rightarrow> jsval)" where
  "destructure JUndefined = Inl (TypeError ''Cannot destructure req.body as it is undefined'')"
| "destructure JNull = Inl (TypeError ''Cannot destructure req.body as it is null'')"
| "destructure v = Inr (opt_chain v)"

text \<open>\<open>currency.toLowerCase()\<close>: a method of strings only.\<close>

fun toLowerCase :: "js_runtime \<Rightarrow> jsval \<Rightarrow> js_error + jsval" where
  "toLowerCase rt (JStr s) = Inr (JStr (rt_toLowerCase rt s))"
| "toLowerCase rt _ = Inl (TypeError ''currency.toLowerCase is not a function'')"

definition empty_heap :: date_heap where
  "empty_heap = \<lparr>next_ref = 0, date_value = (\<lambda>_. None)\<rparr>"

text \<open>The branch for a payment intent that succeeded (source lines 129 to 153). The two
  \<open>new Date()\<close> read the clock at \<open>now1\<close> and \<open>now2\<close>.\<close>

definition succeeded_response ::
  "js_runtime \<Rightarrow> int \<Rightarrow> int \<Rightarrow> jsval \<Rightarrow> js_object \<Rightarrow> js_object
     \<Rightarrow> (js_error + nat \<times> jsval) \<times> effect list" where
  "succeeded_response rt now1 now2 plan_type customer paymentIntent =
     (let log1 = [ConsoleLog ''Payment succeeded!'' []];
          (h1, d1) = new_Date empty_heap (Some now1)
      in case toISOString rt (getTime h1 d1) of
           Inl e \<Rightarrow> (Inl e, log1)
         | Inr start_date \<Rightarrow>
             (let (h2, d2) = new_Date h1 (Some now2);
                  (h3, d3, log2) = calculateEndDate rt h2 d2 (js_or plan_type (JStr ''monthly''))
              in case toISOString rt (getTime h3 d3) of
                   Inl e \<Rightarrow> (Inl e, log1 @ log2)
                 | Inr end_date \<Rightarrow>
                     (Inr (200, JObj [
                        (''success'', JBool True),
                        (''payment_intent'', JObj [
                           (''id'', field paymentIntent ''id''),
                           (''amount'', field paymentIntent ''amount''),
                           (''currency'', field paymentIntent ''currency''),
                           (''status'', field paymentIntent ''status'')]),
                        (''customer'', JObj [
                           (''id'', field customer ''id''),
                           (''email'', field customer ''email''),
                           (''name'', field customer ''name'')]),
                        (''subscription_data'', JObj [
                           (''plan_type'', js_or plan_type (JStr ''monthly'')),
                           (''start_date'', JStr start_date),
                           (''end_date'', JStr end_date)])]),
                      log1 @ log2)))"

text \<open>The branches on the status of the created payment intent (source lines 115 to
  166).\<close>

definition status_response ::
  "js_runtime \<Rightarrow> int \<Rightarrow> int \<Rightarrow> jsval \<Rightarrow> js_object \<Rightarrow> js_object
     \<Rightarrow> (js_error + nat \<times> jsval) \<times> effect list" where
  "status_response rt now1 now2 plan_type customer paymentIntent =
     (if field paymentIntent ''status'' = JStr ''requires_action''
         \<or> field paymentIntent ''status'' = JStr ''requires_source_action'' then
        (Inr (200, JObj [
           (''success'', JBool False),
           (''requires_action'', JBool True),
           (''payment_intent'', JObj [
              (''id'', field paymentIntent ''id''),
              (''client_secret'', field paymentIntent ''client_secret''),
              (''status'', field paymentIntent ''status'')]),
           (''message'', JStr ''3D Secure authentication required'')]),
         [ConsoleLog ''Payment requires 3D Secure authentication'' []])
      else if field paymentIntent ''status'' = JStr ''succeeded'' then
        succeeded_response rt now1 now2 plan_type customer paymentIntent
      else
        (Inr (400, JObj [
           (''success'', JBool False),
           (''error'', JStr ''Payment failed''),
           (''payment_intent'', JObj [
              (''id'', field paymentIntent ''id''),
              (''status'', field paymentIntent ''status''),
              (''last_payment_error'', field paymentIntent ''last_payment_error'')])]),
         [ConsoleLog ''Payment failed:'' [field paymentIntent ''status'']]))"

text \<open>Creating the payment intent for a customer (source lines 89 to 113, the argument
  object first), then the branches above. The arguments of \<open>paymentIntents.create\<close> are evaluated before the call,
  so a \<open>currency\<close> that is not a string throws before the vendor is asked.\<close>

definition payment_intent_args ::
  "js_runtime \<Rightarrow> (string \<Rightarrow> jsval) \<Rightarrow> js_object \<Rightarrow> jsval \<Rightarrow> jsval" where
  "payment_intent_args rt b customer currency =
     JObj [
       (''amount'', rt_parseInt rt (b ''amount'')),
       (''currency'', currency),
       (''customer'', field customer ''id''),
       (''payment_method'', b ''payment_method_id''),
       (''confirmation_method'', JStr ''manual''),
       (''confirm'', JBool True),
       (''return_url'', JStr ''https://www.gammapace.com''),
       (''metadata'', JObj [
          (''plan_type'', js_or (b ''plan_type'') (JStr ''monthly'')),
          (''user_country'', js_or (b ''user_country'') (JStr ''Unknown'')),
          (''customer_name'', js_or (b ''customer_name'') (JStr ''IELTS Student'')),
          (''app_source'', JStr ''IELTS_Practice'')])]"

definition create_intent ::
  "stripe_api \<Rightarrow> js_runtime \<Rightarrow> int \<Rightarrow> int \<Rightarrow> (string \<Rightarrow> jsval) \<Rightarrow> js_object
     \<Rightarrow> (js_error + nat \<times> jsval) \<times> effect list" where
  "create_intent stripe rt now1 now2 b customer =
     (let log1 = [ConsoleLog ''Creating payment intent...'' []]
      in case toLowerCase rt (b ''currency'') of
           Inl e \<Rightarrow> (Inl e, log1)
         | Inr currency \<Rightarrow>
             (let args = payment_intent_args rt b customer currency;
                  log2 = log1 @ [StripeCall ''paymentIntents.create'' args]
              in case paymentIntents_create stripe args of
                   Inl e \<Rightarrow> (Inl e, log2)
                 | Inr paymentIntent \<Rightarrow>
                     (let log3 = log2 @ [ConsoleLog ''Payment Intent created:'' [JObj [
                            (''id'', field paymentIntent ''id''),
                            (''status'', field paymentIntent ''status''),
                            (''amount'', field paymentIntent ''amount''),
                            (''currency'', field paymentIntent ''currency'')]]];
                          (r, log4) = status_response rt now1 now2 (b ''plan_type'')
                                        customer paymentIntent
                      in (r, log3 @ log4))))"

text \<open>Finding or creating the customer (source lines 64 to 87).\<close>

definition find_customer ::
  "stripe_api \<Rightarrow> (string \<Rightarrow> jsval) \<Rightarrow> (js_error + js_object) \<times> effect list" where
  "find_customer stripe b =
     (let list_args = JObj [(''email'', b ''customer_email''), (''limit'', JNum 1)];
          log1 = [ConsoleLog ''Creating/retrieving Stripe customer...'' [],
                  StripeCall ''customers.list'' list_args]
      in case customers_list stripe list_args of
           Inl e \<Rightarrow> (Inl e, log1)
         | Inr (customer # _) \<Rightarrow>
             (Inr customer, log1 @ [ConsoleLog ''Found existing customer:'' [field customer ''id'']])
         | Inr [] \<Rightarrow>
             (let create_args = JObj [
                    (''email'', b ''customer_email''),
                    (''name'', js_or (b ''customer_name'') (JStr ''IELTS Student'')),
                    (''metadata'', JObj [
                       (''user_country'', js_or (b ''user_country'') (JStr ''Unknown'')),
                       (''plan_type'', js_or (b ''plan_type'') (JStr ''monthly'')),
                       (''source'', JStr ''IELTS_Practice_App'')])];
                  log2 = log1 @ [StripeCall ''customers.create'' create_args]
              in case customers_create stripe create_args of
                   Inl e \<Rightarrow> (Inl e, log2)
                 | Inr customer \<Rightarrow>
                     (Inr customer,
                      log2 @ [ConsoleLog ''Created new customer:'' [field customer ''id'']])))"

text \<open>The body of the \<open>try\<close> (source lines 42 to 166): either a thrown error or the status
  and JSON of the response, with the effects up to that point.\<close>

definition payment_try ::
  "stripe_api \<Rightarrow> js_runtime \<Rightarrow> int \<Rightarrow> int \<Rightarrow> jsval
     \<Rightarrow> (js_error + nat \<times> jsval) \<times> effect list" where
  "payment_try stripe rt now1 now2 req_body =
     (let log0 = [ConsoleLog ''Processing payment request...'' [],
                  ConsoleLog ''Request body:'' [req_body]]
      in case destructure req_body of
           Inl e \<Rightarrow> (Inl e, log0)
         | Inr b \<Rightarrow>
             if \<not> truthy (b ''amount'') \<or> \<not> truthy (b ''currency'')
                \<or> \<not> truthy (b ''payment_method_id'') \<or> \<not> truthy (b ''customer_email'') then
               (Inr (400, JObj [
                  (''success'', JBool False),
                  (''error'', JStr ''Missing required fields: amount, currency, payment_method_id, customer_email'')]),
                log0 @ [ConsoleLog ''Missing required fields'' []])
             else
               (case find_customer stripe b of
                  (Inl e, log1) \<Rightarrow> (Inl e, log0 @ log1)
                | (Inr customer, log1) \<Rightarrow>
                    (let (r, log2) = create_intent stripe rt now1 now2 b customer
                     in (r, log0 @ log1 @ log2))))"

text \<open>The \<open>catch\<close> (source lines 168 to 191).\<close>

definition payment_catch :: "js_error \<Rightarrow> (nat \<times> jsval) \<times> effect list" where
  "payment_catch error =
     (if err_type error = JStr ''StripeCardError'' then
        (400, JObj [(''success'', JBool False),
                    (''error'', JStr (err_message error)),
                    (''type'', JStr ''card_error'')])
      else if err_type error = JStr ''StripeInvalidRequestError'' then
        (400, JObj [(''success'', JBool False),
                    (''error'', JStr ''Invalid payment request''),
                    (''type'', JStr ''invalid_request'')])
      else
        (500, JObj [(''success'', JBool False),
                    (''error'', JStr ''Payment processing failed''),
                    (''type'', JStr ''server_error'')]),
      [ConsoleError ''Payment processing error:'' error])"

definition create_payment_intent_handler ::
  "stripe_api \<Rightarrow> js_runtime \<Rightarrow> int \<Rightarrow> int \<Rightarrow> payment_request \<Rightarrow> response \<times> effect list" where
  "create_payment_intent_handler stripe rt now1 now2 req =
     (let log0 = [ConsoleLog ''Payment Intent API called:'' [JStr (pr_method req)]];
          hs = cors_headers (pr_origin req)
      in if pr_method req = ''OPTIONS'' then
           (\<lparr>status = 200, headers = hs, body = EndBody\<rparr>,
            log0 @ [ConsoleLog ''Handling OPTIONS preflight request'' []])
         else if pr_method req \<noteq> ''POST'' then
           (\<lparr>status = 405, headers = hs,
              body = SendJson (JObj [(''error'', JStr ''Method not allowed'')])\<rparr>,
            log0 @ [ConsoleLog ''Method not allowed:'' [JStr (pr_method req)]])
         else
           (case payment_try stripe rt now1 now2 (pr_body req) of
              (Inr (code, json), log1) \<Rightarrow>
                (\<lparr>status = code, headers = hs, body = SendJson json\<rparr>, log0 @ log1)
            | (Inl error, log1) \<Rightarrow>
                (let ((code, json), log2) = payment_catch error
                 in (\<lparr>status = code, headers = hs, body = SendJson json\<rparr>,
                     log0 @ log1 @ log2))))"


section \<open>Webhook endpoint\<close>

text \<open>
  The request: its method, the outcome of reading the raw body (\<^verbatim>\<open>await buffer(req)\<close>,
  which rejects when the body cannot be read) and the \<open>stripe-signature\<close> header.
\<close>

record webhook_request =
  wr_method :: string
  wr_body :: "js_error + string"
  wr_signature :: "string option"

text \<open>
  \<open>constructEvent(buf, sig, webhookSecret)\<close> belongs to the vendor SDK and is a parameter
  of the handler. It throws when the signature does not verify and otherwise returns the
  parsed payload as it is: any JSON value, with no check that it has the shape of an
  event. So the event is a \<open>jsval\<close>, and each property read on it, on its \<open>data\<close> and on
  its \<open>data.object\<close> is a read that throws on \<open>null\<close> and \<open>undefined\<close>.
\<close>

type_synonym construct_event = "string \<Rightarrow> string \<Rightarrow> string \<Rightarrow> js_error + jsval"

definition try_catch :: "js_error + effect list \<Rightarrow> (js_error \<Rightarrow> effect list) \<Rightarrow> effect list" where
  "try_catch attempt on_error = (case attempt of Inl e \<Rightarrow> on_error e | Inr effs \<Rightarrow> effs)"

text \<open>\<^verbatim>\<open>new Date(v * 1000).toISOString()\<close> for a property value \<open>v\<close>.\<close>

definition seconds_to_iso :: "js_runtime \<Rightarrow> jsval \<Rightarrow> js_error + string" where
  "seconds_to_iso rt v =
     toISOString rt (case to_number rt v of None \<Rightarrow> None | Some n \<Rightarrow> TimeClip (n * 1000))"

text \<open>
  The seven per-type handlers. Each logs a line and then runs its body in a \<open>try\<close> whose
  \<open>catch\<close> logs the error. The body is given as a function of its own
  (\<open>..._try\<close>): the first property read of the argument throws when the argument is \<open>null\<close>
  or \<open>undefined\<close>; once it has not thrown, the further reads of the same argument are
  written with \<open>opt_chain\<close>, which agrees with a plain read on every other value.
\<close>

definition payment_success_try :: "jsval \<Rightarrow> js_error + effect list" where
  "payment_success_try paymentIntent =
     (case get_prop paymentIntent ''metadata'' of
        Inl e \<Rightarrow> Inl e
      | Inr metadata \<Rightarrow>
          (let planType = js_or (opt_chain metadata ''plan_type'') (JStr ''monthly'');
               customerName = js_or (opt_chain metadata ''customer_name'') (JStr ''IELTS Student'');
               userCountry = js_or (opt_chain metadata ''user_country'') (JStr ''Unknown'')
           in Inr [ConsoleLog ''Payment success details:'' [JObj [
                     (''paymentIntentId'', opt_chain paymentIntent ''id''),
                     (''customerId'', opt_chain paymentIntent ''customer''),
                     (''amount'', opt_chain paymentIntent ''amount''),
                     (''currency'', opt_chain paymentIntent ''currency''),
                     (''planType'', planType),
                     (''customerName'', customerName),
                     (''userCountry'', userCountry)]]]))"

definition handlePaymentSuccess :: "jsval \<Rightarrow> effect list" where
  "handlePaymentSuccess paymentIntent =
     ConsoleLog ''Processing successful payment...'' [] #
     try_catch (payment_success_try paymentIntent)
       (\<lambda>error. [ConsoleError ''Error handling payment success:'' error])"

definition payment_failed_try :: "jsval \<Rightarrow> js_error + effect list" where
  "payment_failed_try paymentIntent =
     (case get_prop paymentIntent ''id'' of
        Inl e \<Rightarrow> Inl e
      | Inr paymentIntentId \<Rightarrow>
          Inr [ConsoleLog ''Payment failure details:'' [JObj [
                 (''paymentIntentId'', paymentIntentId),
                 (''customerId'', opt_chain paymentIntent ''customer''),
                 (''error'', opt_chain (opt_chain paymentIntent ''last_payment_error'') ''message''),
                 (''code'', opt_chain (opt_chain paymentIntent ''last_payment_error'') ''code'')]]])"

definition handlePaymentFailed :: "jsval \<Rightarrow> effect list" where
  "handlePaymentFailed paymentIntent =
     ConsoleLog ''Processing failed payment...'' [] #
     try_catch (payment_failed_try paymentIntent)
       (\<lambda>error. [ConsoleError ''Error handling payment failure:'' error])"

text \<open>Building the logged object of \<open>handleSubscriptionCreated\<close> also throws when a period
  bound is not a valid time.\<close>

definition subscription_created_try :: "js_runtime \<Rightarrow> jsval \<Rightarrow> js_error + effect list" where
  "subscription_created_try rt subscription =
     (case get_prop subscription ''id'' of
        Inl e \<Rightarrow> Inl e
      | Inr subscriptionId \<Rightarrow>
          (case seconds_to_iso rt (opt_chain subscription ''current_period_start'') of
             Inl e \<Rightarrow> Inl e
           | Inr currentPeriodStart \<Rightarrow>
               (case seconds_to_iso rt (opt_chain subscription ''current_period_end'') of
                  Inl e \<Rightarrow> Inl e
                | Inr currentPeriodEnd \<Rightarrow>
                    Inr [ConsoleLog ''Subscription creation details:'' [JObj [
                           (''subscriptionId'', subscriptionId),
                           (''customerId'', opt_chain subscription ''customer''),
                           (''status'', opt_chain subscription ''status''),
                           (''currentPeriodStart'', JStr currentPeriodStart),
                           (''currentPeriodEnd'', JStr currentPeriodEnd)]]])))"

definition handleSubscriptionCreated :: "js_runtime \<Rightarrow> jsval \<Rightarrow> effect list" where
  "handleSubscriptionCreated rt subscription =
     ConsoleLog ''Processing subscription creation...'' [] #
     try_catch (subscription_created_try rt subscription)
       (\<lambda>error. [ConsoleError ''Error handling subscription creation:'' error])"

definition subscription_updated_try :: "jsval \<Rightarrow> js_error + effect list" where
  "subscription_updated_try subscription =
     (case get_prop subscription ''id'' of
        Inl e \<Rightarrow> Inl e
      | Inr subscriptionId \<Rightarrow>
          Inr [ConsoleLog ''Subscription update details:'' [JObj [
                 (''subscriptionId'', subscriptionId),
                 (''customerId'', opt_chain subscription ''customer''),
                 (''status'', opt_chain subscription ''status''),
                 (''cancelAtPeriodEnd'', opt_chain subscription ''cancel_at_period_end'')]]])"

definition handleSubscriptionUpdated :: "jsval \<Rightarrow> effect list" where
  "handleSubscriptionUpdated subscription =
     ConsoleLog ''Processing subscription update...'' [] #
     try_catch (subscription_updated_try subscription)
       (\<lambda>error. [ConsoleError ''Error handling subscription update:'' error])"

definition subscription_cancelled_try :: "js_runtime \<Rightarrow> jsval \<Rightarrow> js_error + effect list" where
  "subscription_cancelled_try rt subscription =
     (case get_prop subscription ''id'' of
        Inl e \<Rightarrow> Inl e
      | Inr subscriptionId \<Rightarrow>
          (case seconds_to_iso rt (opt_chain subscription ''canceled_at'') of
             Inl e \<Rightarrow> Inl e
           | Inr cancelledAt \<Rightarrow>
               (case (if truthy (opt_chain subscription ''ended_at'')
                      then map_sum id JStr
                             (seconds_to_iso rt (opt_chain subscription ''ended_at''))
                      else Inr JNull) of
                  Inl e \<Rightarrow> Inl e
                | Inr endedAt \<Rightarrow>
                    Inr [ConsoleLog ''Subscription cancellation details:'' [JObj [
                           (''subscriptionId'', subscriptionId),
                           (''customerId'', opt_chain subscription ''customer''),
                           (''cancelledAt'', JStr cancelledAt),
                           (''endedAt'', endedAt)]]])))"

definition handleSubscriptionCancelled :: "js_runtime \<Rightarrow> jsval \<Rightarrow> effect list" where
  "handleSubscriptionCancelled rt subscription =
     ConsoleLog ''Processing subscription cancellation...'' [] #
     try_catch (subscription_cancelled_try rt subscription)
       (\<lambda>error. [ConsoleError ''Error handling subscription cancellation:'' error])"

definition invoice_payment_try :: "jsval \<Rightarrow> js_error + effect list" where
  "invoice_payment_try invoice =
     (case get_prop invoice ''id'' of
        Inl e \<Rightarrow> Inl e
      | Inr invoiceId \<Rightarrow>
          Inr [ConsoleLog ''Invoice payment details:'' [JObj [
                 (''invoiceId'', invoiceId),
                 (''customerId'', opt_chain invoice ''customer''),
                 (''subscriptionId'', opt_chain invoice ''subscription''),
                 (''amountPaid'', opt_chain invoice ''amount_paid''),
                 (''currency'', opt_chain invoice ''currency'')]]])"

definition handleInvoicePayment :: "jsval \<Rightarrow> effect list" where
  "handleInvoicePayment invoice =
     ConsoleLog ''Processing invoice payment...'' [] #
     try_catch (invoice_payment_try invoice)
       (\<lambda>error. [ConsoleError ''Error handling invoice payment:'' error])"

definition invoice_payment_failed_try :: "jsval \<Rightarrow> js_error + effect list" where
  "invoice_payment_failed_try invoice =
     (case get_prop invoice ''id'' of
        Inl e \<Rightarrow> Inl e
      | Inr invoiceId \<Rightarrow>
          Inr [ConsoleLog ''Invoice payment failure details:'' [JObj [
                 (''invoiceId'', invoiceId),
                 (''customerId'', opt_chain invoice ''customer''),
                 (''subscriptionId'', opt_chain invoice ''subscription''),
                 (''attemptCount'', opt_chain invoice ''attempt_count'')]]])"

definition handleInvoicePaymentFailed :: "jsval \<Rightarrow> effect list" where
  "handleInvoicePaymentFailed invoice =
     ConsoleLog ''Processing invoice payment failure...'' [] #
     try_catch (invoice_payment_failed_try invoice)
       (\<lambda>error. [ConsoleError ''Error handling invoice payment failure:'' error])"


text \<open>
  Every case of the \<open>switch\<close> begins in the same way:
  \<^verbatim>\<open>const x = event.data.object; console.log('...', x.id);\<close>
  The read of \<open>object\<close> throws when \<open>event.data\<close> is \<open>null\<close> or \<open>undefined\<close>, and the read
  of \<open>id\<close> throws when \<open>event.data.object\<close> is. Both reads are outside every per-type
  \<open>try\<close>. The result is the object and its \<open>id\<close>.
\<close>

definition case_object :: "jsval \<Rightarrow> js_error + jsval \<times> jsval" where
  "case_object event =
     (case get_prop (opt_chain event ''data'') ''object'' of
        Inl e \<Rightarrow> Inl e
      | Inr obj \<Rightarrow>
          (case get_prop obj ''id'' of
             Inl e \<Rightarrow> Inl e
           | Inr object_id \<Rightarrow> Inr (obj, object_id)))"

text \<open>
  The \<open>switch\<close> on the event type (source lines 56 to 119), for an event whose \<open>type\<close> has
  been read (so the event is neither \<open>null\<close> nor \<open>undefined\<close>). It either throws, before
  the case has logged anything, or returns the console output of the case.
\<close>

definition dispatch :: "js_runtime \<Rightarrow> jsval \<Rightarrow> js_error + effect list" where
  "dispatch rt event =
     (let ty = opt_chain event ''type''
      in if ty = JStr ''payment_intent.succeeded'' then
           (case case_object event of
              Inl e \<Rightarrow> Inl e
            | Inr (paymentIntent, object_id) \<Rightarrow>
                Inr ([ConsoleLog ''Payment succeeded:'' [object_id],
                      ConsoleLog ''Customer:'' [opt_chain paymentIntent ''customer''],
                      ConsoleLog ''Amount:'' [opt_chain paymentIntent ''amount'',
                                              opt_chain paymentIntent ''currency'']]
                     @ handlePaymentSuccess paymentIntent))
         else if ty = JStr ''payment_intent.payment_failed'' then
           (case case_object event of
              Inl e \<Rightarrow> Inl e
            | Inr (failedPayment, object_id) \<Rightarrow>
                Inr ([ConsoleLog ''Payment failed:'' [object_id],
                      ConsoleLog ''Error:''
                        [opt_chain (opt_chain failedPayment ''last_payment_error'') ''message'']]
                     @ handlePaymentFailed failedPayment))
         else if ty = JStr ''customer.subscription.created'' then
           (case case_object event of
              Inl e \<Rightarrow> Inl e
            | Inr (subscription, object_id) \<Rightarrow>
                Inr ([ConsoleLog ''Subscription created:'' [object_id],
                      ConsoleLog ''Customer:'' [opt_chain subscription ''customer''],
                      ConsoleLog ''Status:'' [opt_chain subscription ''status'']]
                     @ handleSubscriptionCreated rt subscription))
         else if ty = JStr ''customer.subscription.updated'' then
           (case case_object event of
              Inl e \<Rightarrow> Inl e
            | Inr (updatedSubscription, object_id) \<Rightarrow>
                Inr ([ConsoleLog ''Subscription updated:'' [object_id],
                      ConsoleLog ''Status:'' [opt_chain updatedSubscription ''status'']]
                     @ handleSubscriptionUpdated updatedSubscription))
         else if ty = JStr ''customer.subscription.deleted'' then
           (case case_object event of
              Inl e \<Rightarrow> Inl e
            | Inr (deletedSubscription, object_id) \<Rightarrow>
                Inr ([ConsoleLog ''Subscription cancelled:'' [object_id],
                      ConsoleLog ''Customer:'' [opt_chain deletedSubscription ''customer'']]
                     @ handleSubscriptionCancelled rt deletedSubscription))
         else if ty = JStr ''invoice.payment_succeeded'' then
           (case case_object event of
              Inl e \<Rightarrow> Inl e
            | Inr (invoice, object_id) \<Rightarrow>
                Inr ([ConsoleLog ''Invoice paid:'' [object_id],
                      ConsoleLog ''Customer:'' [opt_chain invoice ''customer''],
                      ConsoleLog ''Amount:'' [opt_chain invoice ''amount_paid'',
                                              opt_chain invoice ''currency'']]
                     @ handleInvoicePayment invoice))
         else if ty = JStr ''invoice.payment_failed'' then
           (case case_object event of
              Inl e \<Rightarrow> Inl e
            | Inr (failedInvoice, object_id) \<Rightarrow>
                Inr ([ConsoleLog ''Invoice payment failed:'' [object_id],
                      ConsoleLog ''Customer:'' [opt_chain failedInvoice ''customer'']]
                     @ handleInvoicePaymentFailed failedInvoice))
         else
           Inr [ConsoleLog (''Unhandled event type: '' @ js_to_string rt ty) []])"

definition text_response :: "nat \<Rightarrow> string \<Rightarrow> response" where
  "text_response code msg = \<lparr>status = code, headers = [], body = SendText msg\<rparr>"

text \<open>\<open>!s\<close> for a value that is a string or \<open>undefined\<close>.\<close>

fun absent :: "string option \<Rightarrow> bool" where
  "absent None = True"
| "absent (Some s) = (s = [])"

fun string_of :: "string option \<Rightarrow> string" where
  "string_of None = []"
| "string_of (Some s) = s"

text \<open>
  The inner \<open>try\<close> (source lines 43 to 50): \<open>constructEvent\<close>, then the read of \<open>event.type\<close>
  for the log line. Either may throw, into the same \<open>catch\<close>. The result is the event and
  its type.
\<close>

definition verify_event ::
  "construct_event \<Rightarrow> string \<Rightarrow> string \<Rightarrow> string \<Rightarrow> js_error + jsval \<times> jsval" where
  "verify_event constructEvent buf sig secret =
     (case constructEvent buf sig secret of
        Inl err \<Rightarrow> Inl err
      | Inr event \<Rightarrow>
          (case get_prop event ''type'' of
             Inl err \<Rightarrow> Inl err
           | Inr ty \<Rightarrow> Inr (event, ty)))"

text \<open>
  The handler (source lines 18 to 128). \<open>webhookSecret\<close> is the module constant read from
  the environment, \<open>None\<close> when the variable is unset. The outer \<open>catch\<close> answers whatever
  is thrown outside the inner \<open>try\<close> and outside the per-type handlers: an unreadable
  body, and a throw of the \<open>switch\<close> itself.
\<close>

definition webhook_handler ::
  "construct_event \<Rightarrow> js_runtime \<Rightarrow> string option \<Rightarrow> webhook_request
     \<Rightarrow> response \<times> effect list" where
  "webhook_handler constructEvent rt webhookSecret req =
     (let log0 = [ConsoleLog ''Stripe Webhook called:'' [JStr (wr_method req)]]
      in if wr_method req \<noteq> ''POST'' then
           (\<lparr>status = 405, headers = [], body = EndBody\<rparr>,
            log0 @ [ConsoleLog ''Method not allowed for webhook:'' [JStr (wr_method req)]])
         else
           (case wr_body req of
              Inl error \<Rightarrow>
                (text_response 500 ''Webhook processing failed'',
                 log0 @ [ConsoleError ''Webhook processing error:'' error])
            | Inr buf \<Rightarrow>
                if absent (wr_signature req) then
                  (text_response 400 ''Missing Stripe signature'',
                   log0 @ [ConsoleLog ''Missing Stripe signature'' []])
                else if absent webhookSecret then
                  (text_response 500 ''Webhook secret not configured'',
                   log0 @ [ConsoleLog ''Missing webhook secret in environment variables'' []])
                else
                  (case verify_event constructEvent buf (string_of (wr_signature req))
                          (string_of webhookSecret) of
                     Inl err \<Rightarrow>
                       (text_response 400 (''Webhook Error: '' @ err_message err),
                        log0 @ [ConsoleLog ''Webhook signature verification failed:''
                                  [JStr (err_message err)]])
                   | Inr (event, ty) \<Rightarrow>
                       (let log1 = log0
                              @ [ConsoleLog ''Webhook signature verified:'' [ty],
                                 ConsoleLog ''Processing webhook event:'' [ty],
                                 ConsoleLog ''Event data:'' [opt_chain event ''data'']]
                        in case dispatch rt event of
                             Inl error \<Rightarrow>
                               (text_response 500 ''Webhook processing failed'',
                                log1 @ [ConsoleError ''Webhook processing error:'' error])
                           | Inr effs \<Rightarrow>
                               (\<lparr>status = 200, headers = [],
                                  body = SendJson (JObj [(''received'', JBool True),
                                                         (''event_type'', ty)])\<rparr>,
                                log1 @ effs)))))"




section \<open>Sample inputs\<close>

text \<open>Concrete inputs on which the theorems below are instantiated.\<close>

definition sample_runtime :: js_runtime where
  "sample_runtime =
     \<lparr>rt_parseInt = (\<lambda>v. v), rt_StringToNumber = (\<lambda>_. None),
      rt_toString = (\<lambda>_. ''0''), rt_toLowerCase = (\<lambda>s. s),
      rt_isoFormat = (\<lambda>t. ''1970-01-01T00:00:00.000Z''), rt_tza = 0\<rparr>"

definition sample_heap :: date_heap where
  "sample_heap = \<lparr>next_ref = 1, date_value = (\<lambda>_. None)(0 := Some 1700000000000)\<rparr>"

definition sample_delivery :: webhook_request where
  "sample_delivery =
     \<lparr>wr_method = ''POST'', wr_body = Inr ''{}'', wr_signature = Some ''t=1,v1=00''\<rparr>"

definition sample_object :: jsval where
  "sample_object = JObj [(''id'', JStr ''obj_1''), (''customer'', JStr ''cus_1'')]"

text \<open>The event \<open>evt_1\<close> of a given type and \<open>data.object\<close>.\<close>

definition sample_event :: "string \<Rightarrow> jsval \<Rightarrow> jsval" where
  "sample_event ty obj =
     JObj [(''id'', JStr ''evt_1''), (''type'', JStr ty), (''data'', JObj [(''object'', obj)])]"

text \<open>A \<open>constructEvent\<close> that accepts every signature and returns that event.\<close>

definition sample_construct :: "string \<Rightarrow> jsval \<Rightarrow> construct_event" where
  "sample_construct ty obj buf sig secret = Inr (sample_event ty obj)"



text \<open>A \<open>POST\<close> without the signature header whose body cannot be read, and a \<open>GET\<close> without
  the header.\<close>

definition unreadable_delivery :: webhook_request where
  "unreadable_delivery =
     \<lparr>wr_method = ''POST'',
      wr_body = Inl (JsError ''Error'' JUndefined ''Body exceeded 1mb limit''),
      wr_signature = None\<rparr>"

definition get_delivery :: webhook_request where
  "get_delivery = \<lparr>wr_method = ''GET'', wr_body = Inr [], wr_signature = None\<rparr>"

definition sample_customer :: js_object where
  "sample_customer =
     [(''id'', JStr ''cus_1''), (''email'', JStr ''student@example.com''),
      (''name'', JStr ''A Student'')]"

text \<open>A vendor that knows the customer and answers \<open>paymentIntents.create\<close> with the given
  outcome.\<close>

definition sample_stripe :: "(js_error + js_object) \<Rightarrow> stripe_api" where
  "sample_stripe outcome =
     \<lparr>customers_list = (\<lambda>_. Inr [sample_customer]),
      customers_create = (\<lambda>_. Inr sample_customer),
      paymentIntents_create = (\<lambda>_. outcome)\<rparr>"

definition sample_body :: jsval where
  "sample_body =
     JObj [(''amount'', JNum 1999), (''currency'', JStr ''usd''),
           (''payment_method_id'', JStr ''pm_1''),
           (''customer_email'', JStr ''student@example.com'')]"

definition sample_post :: "jsval \<Rightarrow> payment_request" where
  "sample_post b = \<lparr>pr_method = ''POST'', pr_origin = None, pr_body = b\<rparr>"

definition sample_intent :: "string \<Rightarrow> js_object" where
  "sample_intent st =
     [(''id'', JStr ''pi_1''), (''status'', JStr st), (''amount'', JNum 1999),
      (''currency'', JStr ''usd''), (''client_secret'', JStr ''pi_1_secret_abc'')]"

definition card_declined :: js_error where
  "card_declined =
     JsError ''StripeCardError'' (JStr ''StripeCardError'') ''Your card was declined.''"

definition no_such_payment_method :: js_error where
  "no_such_payment_method =
     JsError ''StripeInvalidRequestError'' (JStr ''StripeInvalidRequestError'')
       ''No such PaymentMethod: pm_1''"

section \<open>The calendar functions\<close>

lemma div_bounds:
  fixes k t :: int
  assumes "0 < k"
  shows "k * (t div k) \<le> t" and "t < k * (t div k) + k"
  using mult_div_mod_eq [of k t] pos_mod_sign [OF assms, of t] pos_mod_bound [OF assms, of t]
  by linarith+

text \<open>Four hundred years have 146097 days, so \<open>DayFromYear\<close> stays within two days of a
  line of that slope.\<close>

lemma DayFromYear_bounds:
  "146097 * y - 287811697 < 400 * DayFromYear y
   \<and> 400 * DayFromYear y < 146097 * y - 287810497"
proof -
  define a b c where "a = (y - 1969) div 4" and "b = (y - 1901) div 100"
    and "c = (y - 1601) div 400"
  have "4 * a \<le> y - 1969" "y - 1969 < 4 * a + 4"
    unfolding a_def by (simp_all add: div_bounds)
  moreover have "100 * b \<le> y - 1901" "y - 1901 < 100 * b + 100"
    unfolding b_def by (simp_all add: div_bounds)
  moreover have "400 * c \<le> y - 1601" "y - 1601 < 400 * c + 400"
    unfolding c_def by (simp_all add: div_bounds)
  moreover have "DayFromYear y = 365 * y - 719050 + a - b + c"
    by (simp add: DayFromYear_def a_def b_def c_def)
  ultimately show ?thesis by linarith
qed

text \<open>\<open>YearFromDay\<close> does find the year a day lies in.\<close>

lemma YearFromDay_correct:
  "DayFromYear (YearFromDay d) \<le> d \<and> d < DayFromYear (YearFromDay d + 1)"
proof -
  define q where "q = (400 * d) div 146097"
  define D2 where "D2 = DayFromYear (q + 1972)"
  define D0 where "D0 = DayFromYear (q + 1969)"
  have qb: "146097 * q \<le> 400 * d" "400 * d < 146097 * q + 146097"
    unfolding q_def by (simp_all add: div_bounds)
  have "146097 * (q + 1972) - 287811697 < 400 * D2"
    unfolding D2_def using DayFromYear_bounds [of "q + 1972"] by simp
  then have "146097 * q + 288103284 - 287811697 < 400 * D2"
    by (simp add: algebra_simps)
  with qb have up: "d < D2"
    by linarith
  have "400 * D0 < 146097 * (q + 1969) - 287810497"
    unfolding D0_def using DayFromYear_bounds [of "q + 1969"] by simp
  then have "400 * D0 < 146097 * q + 287664993 - 287810497"
    by (simp add: algebra_simps)
  with qb have lo: "D0 \<le> d"
    by linarith
  have y: "YearFromDay d =
      (if DayFromYear (q + 1971) \<le> d then q + 1971
       else if DayFromYear (q + 1970) \<le> d then q + 1970 else q + 1969)"
    by (simp add: YearFromDay_def q_def Let_def add.commute)
  show ?thesis
    using up lo unfolding y D2_def D0_def by (simp add: add.commute)
qed

lemma MonthFromTime_range: "0 \<le> MonthFromTime t \<and> MonthFromTime t \<le> 11"
  by (simp add: MonthFromTime_def Let_def)

text \<open>Setting the day of the month to the current one plus \<open>n\<close> moves the day number by
  \<open>n\<close>: the year and the month given to \<open>MakeDay\<close> are those the day of the month was
  counted in.\<close>

lemma MakeDay_shift:
  "MakeDay (YearFromTime t) (MonthFromTime t) (DateFromTime t + n) = Day t + n"
proof -
  have m: "0 \<le> MonthFromTime t" "MonthFromTime t \<le> 11"
    using MonthFromTime_range by auto
  then have d: "MonthFromTime t div 12 = 0" "MonthFromTime t mod 12 = MonthFromTime t"
    by auto
  show ?thesis
    by (simp add: MakeDay_def Let_def d DateFromTime_def DayWithinYear_def InLeapYear_def)
qed

lemma day_split: "Day t * msPerDay + TimeWithinDay t = t"
  by (simp add: Day_def TimeWithinDay_def)

lemma setDate_getDate_plus:
  assumes "date_value h r = Some t0"
  shows "date_value (setDate rt h r (num_plus (getDate rt h r) n)) r
         = TimeClip (t0 + n * msPerDay)"
proof -
  have "MakeDate (Day (LocalTime rt t0) + n) (TimeWithinDay (LocalTime rt t0))
        = LocalTime rt t0 + n * msPerDay"
    using day_split [of "LocalTime rt t0"] by (simp add: MakeDate_def algebra_simps)
  then show ?thesis
    using assms
    by (simp add: setDate_def getDate_def num_plus_def Let_def MakeDay_shift UTC_def
        LocalTime_def)
qed

lemma setDate_other:
  "r' \<noteq> r \<Longrightarrow> date_value (setDate rt h r d) r' = date_value h r'"
  by (simp add: setDate_def Let_def split: option.splits)

section \<open>The end of a subscription\<close>

lemma end_date_value:
  assumes "is_Date h startDate" and "new_Date h (getTime h startDate) = (h1, endDate)"
  shows "date_value (setDate rt h1 endDate (num_plus (getDate rt h1 endDate) n)) endDate
         = date_plus_days (getTime h startDate) n"
proof (cases "date_value h startDate")
  case None
  with assms(2) show ?thesis
    by (auto simp add: new_Date_def getTime_def setDate_def date_plus_days_def)
next
  case (Some t)
  with assms(1) have "TimeClip t = Some t"
    by (simp add: is_Date_def TimeClip_def)
  with Some assms(2) have "date_value h1 endDate = Some t"
    by (auto simp add: new_Date_def getTime_def)
  from setDate_getDate_plus [OF this] Some show ?thesis
    by (simp add: date_plus_days_def getTime_def)
qed

lemma start_date_kept:
  assumes "r < next_ref h" and "new_Date h v = (h1, endDate)"
  shows "date_value (setDate rt h1 endDate d) r = date_value h r \<and> endDate \<noteq> r"
  using assms by (auto simp add: setDate_other new_Date_def)

text \<open>
  Claim C9. \<open>calculateEndDate\<close> returns a new \<open>Date\<close> that is the start date plus 7 days
  for the plan type \<open>'weekly'\<close>, plus 30 days for \<open>'monthly'\<close>, plus 90 days for
  \<open>'quarterly'\<close> and plus 30 days for every other value of the plan type, \<open>undefined\<close>
  included; the \<open>Date\<close> passed in keeps its time value.
\<close>

theorem calculateEndDate_adds_plan_days:
  assumes "is_Date h startDate"
  shows "case calculateEndDate rt h startDate planType of
           (h', endDate, logs) \<Rightarrow>
             getTime h' endDate =
               date_plus_days (getTime h startDate)
                 (if planType = JStr ''weekly'' then 7
                  else if planType = JStr ''monthly'' then 30
                  else if planType = JStr ''quarterly'' then 90
                  else 30)
             \<and> getTime h' startDate = getTime h startDate
             \<and> endDate \<noteq> startDate"
proof -
  obtain h1 endDate where nd: "new_Date h (getTime h startDate) = (h1, endDate)"
    by (cases "new_Date h (getTime h startDate)")
  have r: "startDate < next_ref h"
    using assms by (simp add: is_Date_def)
  show ?thesis
    unfolding calculateEndDate_def nd
    using end_date_value [OF assms nd] start_date_kept [OF r nd]
    by (simp add: getTime_def)
qed

theorem calculateEndDate_adds_plan_days_witness:
  "is_Date sample_heap 0 \<and>
   (case calculateEndDate sample_runtime sample_heap 0 (JStr ''weekly'') of
      (h', endDate, logs) \<Rightarrow>
        getTime h' endDate = Some 1700604800000
        \<and> getTime h' 0 = Some 1700000000000 \<and> endDate \<noteq> 0)"
proof -
  have d: "is_Date sample_heap 0"
    by (simp add: is_Date_def sample_heap_def)
  show ?thesis
    using d calculateEndDate_adds_plan_days
      [OF d, where rt = sample_runtime and planType = "JStr ''weekly''"]
    by (auto simp add: date_plus_days_def TimeClip_def msPerDay_def getTime_def sample_heap_def)
qed

section \<open>The webhook handler\<close>

subsection \<open>What the handler does to the world: console output only\<close>









subsection \<open>A delivery that passes verification\<close>







lemma switch_throw_response:
  assumes "wr_method req = ''POST''" and "wr_body req = Inr buf"
    and "\<not> absent (wr_signature req)" and "\<not> absent secret"
    and "ce buf (string_of (wr_signature req)) (string_of secret) = Inr ev"
    and "get_prop ev ''type'' = Inr ty"
    and "dispatch rt ev = Inl error"
  shows "webhook_handler ce rt secret req =
    (\<lparr>status = 500, headers = [], body = SendText ''Webhook processing failed''\<rparr>,
     [ConsoleLog ''Stripe Webhook called:'' [JStr ''POST''],
      ConsoleLog ''Webhook signature verified:'' [ty],
      ConsoleLog ''Processing webhook event:'' [ty],
      ConsoleLog ''Event data:'' [opt_chain ev ''data''],
      ConsoleError ''Webhook processing error:'' error])"
  using assms by (simp add: webhook_handler_def verify_event_def Let_def text_response_def)

lemma sample_delivery_facts:
  "wr_method sample_delivery = ''POST''" "wr_body sample_delivery = Inr ''{}''"
  "\<not> absent (wr_signature sample_delivery)" "\<not> absent (Some ''whsec_1'')"
  by (simp_all add: sample_delivery_def)









text \<open>
  Claim C3 as stated fails on the code: with a signature header present and no secret in
  the environment the status is 500, which is not in the 400 class.
\<close>

theorem unconfigured_secret_status_not_400_class:
  "status (fst (webhook_handler (sample_construct ''payment_intent.succeeded'' sample_object)
      sample_runtime None sample_delivery)) = 500
   \<and> \<not> (400 \<le> status (fst (webhook_handler
              (sample_construct ''payment_intent.succeeded'' sample_object)
              sample_runtime None sample_delivery))
        \<and> status (fst (webhook_handler
              (sample_construct ''payment_intent.succeeded'' sample_object)
              sample_runtime None sample_delivery)) < 500)"
  by (simp add: webhook_handler_def sample_delivery_def Let_def text_response_def)

text \<open>
  Claim C3, as amended. A \<open>POST\<close> whose body was read and that carries a signature header,
  arriving when the signing secret is not configured (unset or empty), is rejected with
  status 500 and the plain text \<open>Webhook secret not configured\<close>; nothing but two console
  lines happens.
\<close>

theorem unconfigured_secret_rejected_with_500:
  assumes "wr_method req = ''POST''" and "wr_body req = Inr buf"
    and "\<not> absent (wr_signature req)" and "absent secret"
  shows "webhook_handler ce rt secret req =
           (\<lparr>status = 500, headers = [], body = SendText ''Webhook secret not configured''\<rparr>,
            [ConsoleLog ''Stripe Webhook called:'' [JStr ''POST''],
             ConsoleLog ''Missing webhook secret in environment variables'' []])"
  using assms by (simp add: webhook_handler_def Let_def text_response_def)

theorem unconfigured_secret_rejected_with_500_witness:
  "wr_method sample_delivery = ''POST'' \<and> wr_body sample_delivery = Inr ''{}''
   \<and> \<not> absent (wr_signature sample_delivery) \<and> absent None
   \<and> fst (webhook_handler (sample_construct ''payment_intent.succeeded'' sample_object)
        sample_runtime None sample_delivery)
      = \<lparr>status = 500, headers = [], body = SendText ''Webhook secret not configured''\<rparr>"
proof -
  have a: "absent None" by simp
  show ?thesis
    using sample_delivery_facts(1-3) a
      unconfigured_secret_rejected_with_500
        [where ce = "sample_construct ''payment_intent.succeeded'' sample_object"
           and rt = sample_runtime,
         OF sample_delivery_facts(1-3) a]
    by simp
qed

text \<open>
  Claim C5 as stated fails on the code, at two requests without the signature header: a
  \<open>POST\<close> whose body cannot be read is answered 500 by the outer \<open>catch\<close>, the body being
  read before the header is looked at, and a \<open>GET\<close> is answered 405. Neither is the 400 of
  the authentication failure.
\<close>

theorem headerless_request_not_always_400:
  "wr_signature unreadable_delivery = None
   \<and> fst (webhook_handler (sample_construct ''payment_intent.succeeded'' sample_object)
            sample_runtime (Some ''whsec_1'') unreadable_delivery)
      = \<lparr>status = 500, headers = [], body = SendText ''Webhook processing failed''\<rparr>
   \<and> wr_signature get_delivery = None
   \<and> fst (webhook_handler (sample_construct ''payment_intent.succeeded'' sample_object)
            sample_runtime (Some ''whsec_1'') get_delivery)
      = \<lparr>status = 405, headers = [], body = EndBody\<rparr>"
  by (simp add: webhook_handler_def unreadable_delivery_def get_delivery_def Let_def
      text_response_def)

text \<open>
  Claim C5, as amended. A \<open>POST\<close> whose body was read and that lacks the signature header
  (or carries an empty one) is answered with the authentication failure, status 400 and
  the text \<open>Missing Stripe signature\<close>, which is not the acknowledgement; all the handler
  does is write two console lines, so the persistence sink is not called.
\<close>

theorem missing_signature_rejected:
  assumes "wr_method req = ''POST''" and "wr_body req = Inr buf"
    and "absent (wr_signature req)"
  shows "webhook_handler ce rt secret req =
           (\<lparr>status = 400, headers = [], body = SendText ''Missing Stripe signature''\<rparr>,
            [ConsoleLog ''Stripe Webhook called:'' [JStr ''POST''],
             ConsoleLog ''Missing Stripe signature'' []])
       \<and> status (fst (webhook_handler ce rt secret req)) \<noteq> 200
       \<and> filter is_sink_write (snd (webhook_handler ce rt secret req)) = []"
  using assms by (simp add: webhook_handler_def Let_def text_response_def)

theorem missing_signature_rejected_witness:
  "wr_method (sample_delivery\<lparr>wr_signature := None\<rparr>) = ''POST''
   \<and> wr_body (sample_delivery\<lparr>wr_signature := None\<rparr>) = Inr ''{}''
   \<and> absent (wr_signature (sample_delivery\<lparr>wr_signature := None\<rparr>))
   \<and> webhook_handler (sample_construct ''payment_intent.succeeded'' sample_object)
        sample_runtime (Some ''whsec_1'') (sample_delivery\<lparr>wr_signature := None\<rparr>)
      = (\<lparr>status = 400, headers = [], body = SendText ''Missing Stripe signature''\<rparr>,
         [ConsoleLog ''Stripe Webhook called:'' [JStr ''POST''],
          ConsoleLog ''Missing Stripe signature'' []])"
proof -
  have a: "wr_method (sample_delivery\<lparr>wr_signature := None\<rparr>) = ''POST''"
    "wr_body (sample_delivery\<lparr>wr_signature := None\<rparr>) = Inr ''{}''"
    "absent (wr_signature (sample_delivery\<lparr>wr_signature := None\<rparr>))"
    by (simp_all add: sample_delivery_def)
  show ?thesis
    using a missing_signature_rejected
        [where ce = "sample_construct ''payment_intent.succeeded'' sample_object"
           and rt = sample_runtime and secret = "Some ''whsec_1''", OF a]
    by simp
qed



section \<open>The payment intent handler\<close>

subsection \<open>Validation of the required fields\<close>

text \<open>When \<open>req.body\<close> is neither \<open>null\<close> nor \<open>undefined\<close> and one of the four required
  fields is missing (or otherwise falsy), the answer is the validation error, status 400,
  and the vendor has not been called.\<close>

lemma missing_field_rejected:
  assumes "pr_method req = ''POST''" and "destructure (pr_body req) = Inr b"
    and "\<not> truthy (b ''amount'') \<or> \<not> truthy (b ''currency'')
         \<or> \<not> truthy (b ''payment_method_id'') \<or> \<not> truthy (b ''customer_email'')"
  shows "fst (create_payment_intent_handler stripe rt now1 now2 req) =
           \<lparr>status = 400, headers = cors_headers (pr_origin req),
             body = SendJson (JObj [(''success'', JBool False),
               (''error'', JStr ''Missing required fields: amount, currency, payment_method_id, customer_email'')])\<rparr>
       \<and> filter is_stripe_call (snd (create_payment_intent_handler stripe rt now1 now2 req)) = []"
  using assms
  by (auto simp add: create_payment_intent_handler_def payment_try_def Let_def)

text \<open>Whatever \<open>req.body\<close> is, a request that lacks a required field reaches no vendor
  call.\<close>

lemma no_vendor_call_without_fields:
  assumes "\<not> truthy (opt_chain (pr_body req) ''amount'')
         \<or> \<not> truthy (opt_chain (pr_body req) ''currency'')
         \<or> \<not> truthy (opt_chain (pr_body req) ''payment_method_id'')
         \<or> \<not> truthy (opt_chain (pr_body req) ''customer_email'')"
  shows "filter is_stripe_call (snd (create_payment_intent_handler stripe rt now1 now2 req)) = []"
  using assms
  by (cases "pr_body req")
     (auto simp add: create_payment_intent_handler_def payment_try_def payment_catch_def Let_def)

text \<open>
  Claim C7. A request that lacks the required fields is to get a validation error. The
  code gives one when \<open>req.body\<close> is an object (lemma \<open>missing_field_rejected\<close>), but a
  \<open>POST\<close> with no body at all, which lacks all four fields, makes the destructuring throw
  before the check is reached: the \<open>catch\<close> answers 500 with the type \<open>server_error\<close>.
\<close>

theorem absent_body_answered_as_server_error:
  "create_payment_intent_handler stripe rt now1 now2
       \<lparr>pr_method = ''POST'', pr_origin = None, pr_body = JUndefined\<rparr>
   = (\<lparr>status = 500,
        headers = [(''Access-Control-Allow-Origin'', ''*''),
                   (''Access-Control-Allow-Methods'', ''POST, OPTIONS''),
                   (''Access-Control-Allow-Headers'', ''Content-Type, Authorization'')],
        body = SendJson (JObj [(''success'', JBool False),
                               (''error'', JStr ''Payment processing failed''),
                               (''type'', JStr ''server_error'')])\<rparr>,
      [ConsoleLog ''Payment Intent API called:'' [JStr ''POST''],
       ConsoleLog ''Processing payment request...'' [],
       ConsoleLog ''Request body:'' [JUndefined],
       ConsoleError ''Payment processing error:''
         (JsError ''TypeError'' JUndefined ''Cannot destructure req.body as it is undefined'')])"
  by (simp add: create_payment_intent_handler_def payment_try_def payment_catch_def Let_def
      TypeError_def cors_headers_def)

subsection \<open>Errors thrown inside the \<open>try\<close>\<close>

lemma sample_try_throws:
  "fst (payment_try (sample_stripe (Inl e)) sample_runtime now1 now2 sample_body) = Inl e"
  by (simp add: payment_try_def sample_body_def field_def find_customer_def sample_stripe_def
      create_intent_def sample_runtime_def Let_def)

text \<open>
  Claim C8, as amended. When an error is thrown while the request is processed, the answer
  depends on the error's \<open>type\<close> only: a \<open>StripeCardError\<close> gives status 400, the
  vendor's message as it is and the type \<open>card_error\<close>; a \<open>StripeInvalidRequestError\<close>
  gives status 400, the fixed message \<open>Invalid payment request\<close> and the type
  \<open>invalid_request\<close>; every other error gives status 500, the fixed message
  \<open>Payment processing failed\<close> and the type \<open>server_error\<close>.
\<close>

theorem vendor_error_classified:
  assumes "pr_method req = ''POST''"
    and "fst (payment_try stripe rt now1 now2 (pr_body req)) = Inl e"
  shows "fst (create_payment_intent_handler stripe rt now1 now2 req) =
     \<lparr>status = (if err_type e = JStr ''StripeCardError''
                   \<or> err_type e = JStr ''StripeInvalidRequestError'' then 400 else 500),
       headers = cors_headers (pr_origin req),
       body = SendJson (JObj [
         (''success'', JBool False),
         (''error'', JStr (if err_type e = JStr ''StripeCardError'' then err_message e
                           else if err_type e = JStr ''StripeInvalidRequestError''
                           then ''Invalid payment request''
                           else ''Payment processing failed'')),
         (''type'', JStr (if err_type e = JStr ''StripeCardError'' then ''card_error''
                          else if err_type e = JStr ''StripeInvalidRequestError''
                          then ''invalid_request''
                          else ''server_error''))])\<rparr>"
  using assms
  by (cases "payment_try stripe rt now1 now2 (pr_body req)")
     (auto simp add: create_payment_intent_handler_def payment_catch_def Let_def)

theorem vendor_error_classified_witness:
  "pr_method (sample_post sample_body) = ''POST''
   \<and> fst (payment_try (sample_stripe (Inl card_declined)) sample_runtime 0 0
            (pr_body (sample_post sample_body))) = Inl card_declined
   \<and> fst (create_payment_intent_handler (sample_stripe (Inl card_declined)) sample_runtime 0 0
            (sample_post sample_body)) =
       \<lparr>status = 400, headers = cors_headers None,
         body = SendJson (JObj [(''success'', JBool False),
                                (''error'', JStr ''Your card was declined.''),
                                (''type'', JStr ''card_error'')])\<rparr>"
proof -
  have a: "pr_method (sample_post sample_body) = ''POST''"
    by (simp add: sample_post_def)
  have b: "fst (payment_try (sample_stripe (Inl card_declined)) sample_runtime 0 0
            (pr_body (sample_post sample_body))) = Inl card_declined"
    by (simp add: sample_post_def sample_try_throws)
  show ?thesis
    using a b vendor_error_classified [OF a b]
    by (simp add: card_declined_def sample_post_def)
qed

text \<open>
  Claim C8 as stated fails on the code: when the vendor rejects the payment intent with
  the invalid-request error \<open>No such PaymentMethod: pm_1\<close>, the caller receives the text
  \<open>Invalid payment request\<close>, not the vendor's message.
\<close>

theorem invalid_request_message_replaced:
  "body (fst (create_payment_intent_handler (sample_stripe (Inl no_such_payment_method))
            sample_runtime 0 0 (sample_post sample_body))) =
     SendJson (JObj [(''success'', JBool False),
                     (''error'', JStr ''Invalid payment request''),
                     (''type'', JStr ''invalid_request'')])
   \<and> err_message no_such_payment_method = ''No such PaymentMethod: pm_1''
   \<and> err_message no_such_payment_method \<noteq> ''Invalid payment request''"
  by (simp add: create_payment_intent_handler_def payment_catch_def Let_def sample_post_def
      no_such_payment_method_def payment_try_def sample_body_def field_def find_customer_def
      sample_stripe_def create_intent_def sample_runtime_def)

subsection \<open>A payment that needs 3D Secure\<close>

text \<open>
  Claim C10. When the request passes validation, a customer is found or created, and the
  payment intent the vendor creates has the status \<open>requires_action\<close> or
  \<open>requires_source_action\<close>, the answer has HTTP status 200 and a body with
  \<open>success: false\<close>, \<open>requires_action: true\<close> and the payment intent's identifier,
  \<open>client_secret\<close> and status.
\<close>

theorem requires_action_response:
  assumes "pr_method req = ''POST''"
    and "destructure (pr_body req) = Inr b"
    and "truthy (b ''amount'')" and "truthy (b ''currency'')"
    and "truthy (b ''payment_method_id'')" and "truthy (b ''customer_email'')"
    and "fst (find_customer stripe b) = Inr customer"
    and "toLowerCase rt (b ''currency'') = Inr currency"
    and "paymentIntents_create stripe (payment_intent_args rt b customer currency)
         = Inr paymentIntent"
    and "field paymentIntent ''status'' = JStr ''requires_action''
         \<or> field paymentIntent ''status'' = JStr ''requires_source_action''"
  shows "fst (create_payment_intent_handler stripe rt now1 now2 req) =
     \<lparr>status = 200, headers = cors_headers (pr_origin req),
       body = SendJson (JObj [
         (''success'', JBool False),
         (''requires_action'', JBool True),
         (''payment_intent'', JObj [
            (''id'', field paymentIntent ''id''),
            (''client_secret'', field paymentIntent ''client_secret''),
            (''status'', field paymentIntent ''status'')]),
         (''message'', JStr ''3D Secure authentication required'')])\<rparr>"
proof -
  obtain log1 where fc: "find_customer stripe b = (Inr customer, log1)"
    using assms(7) by (cases "find_customer stripe b") auto
  have sr: "fst (status_response rt now1 now2 (b ''plan_type'') customer paymentIntent) =
     Inr (200, JObj [
         (''success'', JBool False),
         (''requires_action'', JBool True),
         (''payment_intent'', JObj [
            (''id'', field paymentIntent ''id''),
            (''client_secret'', field paymentIntent ''client_secret''),
            (''status'', field paymentIntent ''status'')]),
         (''message'', JStr ''3D Secure authentication required'')])"
    using assms(10) by (auto simp add: status_response_def)
  have ci: "fst (create_intent stripe rt now1 now2 b customer) =
     fst (status_response rt now1 now2 (b ''plan_type'') customer paymentIntent)"
    using assms(8,9) by (simp add: create_intent_def Let_def split: prod.splits)
  have "fst (payment_try stripe rt now1 now2 (pr_body req)) =
     fst (create_intent stripe rt now1 now2 b customer)"
    using assms(2-6) fc by (simp add: payment_try_def Let_def split: prod.splits)
  with ci sr have "fst (payment_try stripe rt now1 now2 (pr_body req)) = Inr (200, JObj [
         (''success'', JBool False),
         (''requires_action'', JBool True),
         (''payment_intent'', JObj [
            (''id'', field paymentIntent ''id''),
            (''client_secret'', field paymentIntent ''client_secret''),
            (''status'', field paymentIntent ''status'')]),
         (''message'', JStr ''3D Secure authentication required'')])"
    by simp
  then show ?thesis
    using assms(1)
    by (cases "payment_try stripe rt now1 now2 (pr_body req)")
       (auto simp add: create_payment_intent_handler_def Let_def)
qed

theorem requires_action_response_witness:
  "pr_method (sample_post sample_body) = ''POST''
   \<and> destructure (pr_body (sample_post sample_body)) = Inr (opt_chain sample_body)
   \<and> truthy (opt_chain sample_body ''amount'') \<and> truthy (opt_chain sample_body ''currency'')
   \<and> truthy (opt_chain sample_body ''payment_method_id'')
   \<and> truthy (opt_chain sample_body ''customer_email'')
   \<and> fst (find_customer (sample_stripe (Inr (sample_intent ''requires_action'')))
            (opt_chain sample_body)) = Inr sample_customer
   \<and> toLowerCase sample_runtime (opt_chain sample_body ''currency'') = Inr (JStr ''usd'')
   \<and> paymentIntents_create (sample_stripe (Inr (sample_intent ''requires_action'')))
        (payment_intent_args sample_runtime (opt_chain sample_body) sample_customer (JStr ''usd''))
      = Inr (sample_intent ''requires_action'')
   \<and> field (sample_intent ''requires_action'') ''status'' = JStr ''requires_action''
   \<and> fst (create_payment_intent_handler (sample_stripe (Inr (sample_intent ''requires_action'')))
            sample_runtime 0 0 (sample_post sample_body)) =
       \<lparr>status = 200, headers = cors_headers None,
         body = SendJson (JObj [
           (''success'', JBool False),
           (''requires_action'', JBool True),
           (''payment_intent'', JObj [
              (''id'', JStr ''pi_1''),
              (''client_secret'', JStr ''pi_1_secret_abc''),
              (''status'', JStr ''requires_action'')]),
           (''message'', JStr ''3D Secure authentication required'')])\<rparr>"
proof -
  have a: "pr_method (sample_post sample_body) = ''POST''"
    and b: "destructure (pr_body (sample_post sample_body)) = Inr (opt_chain sample_body)"
    by (simp_all add: sample_post_def sample_body_def)
  have t: "truthy (opt_chain sample_body ''amount'')" "truthy (opt_chain sample_body ''currency'')"
    "truthy (opt_chain sample_body ''payment_method_id'')"
    "truthy (opt_chain sample_body ''customer_email'')"
    by (simp_all add: sample_body_def field_def)
  have c: "fst (find_customer (sample_stripe (Inr (sample_intent ''requires_action'')))
            (opt_chain sample_body)) = Inr sample_customer"
    by (simp add: find_customer_def sample_stripe_def Let_def)
  have l: "toLowerCase sample_runtime (opt_chain sample_body ''currency'') = Inr (JStr ''usd'')"
    by (simp add: sample_body_def field_def sample_runtime_def)
  have p: "paymentIntents_create (sample_stripe (Inr (sample_intent ''requires_action'')))
        (payment_intent_args sample_runtime (opt_chain sample_body) sample_customer (JStr ''usd''))
      = Inr (sample_intent ''requires_action'')"
    by (simp add: sample_stripe_def)
  have s: "field (sample_intent ''requires_action'') ''status'' = JStr ''requires_action''"
    by (simp add: sample_intent_def field_def)
  have s': "field (sample_intent ''requires_action'') ''status'' = JStr ''requires_action''
         \<or> field (sample_intent ''requires_action'') ''status'' = JStr ''requires_source_action''"
    using s by simp
  have f: "field (sample_intent ''requires_action'') ''id'' = JStr ''pi_1''"
    "field (sample_intent ''requires_action'') ''client_secret'' = JStr ''pi_1_secret_abc''"
    by (simp_all add: sample_intent_def field_def)
  show ?thesis
    using a b t c l p s f
      requires_action_response [OF a b t c l p s', where ?now1.0 = 0 and ?now2.0 = 0]
    by (simp add: sample_post_def)
qed

end
